theory Spec2Isabelle
  imports Complex_Main "HOL-Library.Char_ord" "HOL-Library.List_Lexorder"
begin

section \<open>Floating-point values of the data frames\<close>

text \<open>
  The program computes with IEEE doubles. Finite doubles are idealised as real numbers
  (no rounding error); the three special values that steer the control flow of the
  program are kept: \<open>NaN\<close> (the mean of an empty column, the standard deviation of
  fewer than two values) and the two infinities (\<open>1 / 0.0\<close> in numpy).
  Comparisons follow IEEE: every ordered comparison with \<open>NaN\<close> is false.
\<close>

datatype fval = NaN | NegInf | Fin real | PosInf

fun fgt :: "fval \<Rightarrow> fval \<Rightarrow> bool" where
  "fgt NaN _ = False"
| "fgt _ NaN = False"
| "fgt NegInf _ = False"
| "fgt _ NegInf = True"
| "fgt PosInf PosInf = False"
| "fgt PosInf (Fin _) = True"
| "fgt (Fin _) PosInf = False"
| "fgt (Fin a) (Fin b) = (b < a)"

fun feq :: "fval \<Rightarrow> fval \<Rightarrow> bool" where
  "feq NaN _ = False"
| "feq _ NaN = False"
| "feq a b = (a = b)"

definition fge :: "fval \<Rightarrow> fval \<Rightarrow> bool" where
  "fge a b = (fgt a b \<or> feq a b)"

definition fle :: "fval \<Rightarrow> fval \<Rightarrow> bool" where
  "fle a b = fge b a"

section \<open>Data frames\<close>

text \<open>
  A cell of a pandas column is missing (\<open>None\<close>, \<open>NaN\<close>), a number or a text. A data
  frame is its index length together with its labelled columns, in order.
\<close>

datatype cell = NA | Num real | Str string

type_synonym column = "cell list"

record dataframe =
  nrows :: nat
  columns :: "(string \<times> column) list"

text \<open>\<open>isna\<close>: the Boolean mask of the missing entries of a column.\<close>

definition isna :: "column \<Rightarrow> bool list" where
  "isna col = map (\<lambda>c. c = NA) col"

text \<open>
  The invariant of every pandas data frame built from a dictionary or read from a CSV
  file: the labels are distinct and every column has one cell per index entry.
\<close>

definition wf_dataframe :: "dataframe \<Rightarrow> bool" where
  "wf_dataframe d =
     (distinct (map fst (columns d)) \<and> list_all (\<lambda>c. length (snd c) = nrows d) (columns d))"

datatype error = KeyError string | TypeError

section \<open>\<open>SolarDataCleaner.drop_high_missing\<close>\<close>

text \<open>
  \<open>mask.mean()\<close>: the mean of a Boolean column is the number of \<open>True\<close> entries over the
  number of entries, and \<open>NaN\<close> when there is no entry.
\<close>

definition bool_mean :: "bool list \<Rightarrow> fval" where
  "bool_mean bs =
     (if bs = [] then NaN else Fin (real (length (filter id bs)) / real (length bs)))"

text \<open>\<open>missing_frac = self.df.isna().mean()\<close>: one value per column label.\<close>

definition missing_frac :: "dataframe \<Rightarrow> (string \<times> fval) list" where
  "missing_frac d = map (\<lambda>(name, col). (name, bool_mean (isna col))) (columns d)"

text \<open>\<open>cols_to_drop = missing_frac[missing_frac > threshold].index.tolist()\<close>\<close>

definition cols_to_drop :: "dataframe \<Rightarrow> fval \<Rightarrow> string list" where
  "cols_to_drop d threshold =
     map fst (filter (\<lambda>(name, frac). fgt frac threshold) (missing_frac d))"

text \<open>
  \<open>DataFrame.drop(columns=labels)\<close> removes every column that carries one of the labels
  and raises \<open>KeyError\<close> for a label that the frame does not have.
\<close>

definition drop_columns :: "dataframe \<Rightarrow> string list \<Rightarrow> error + dataframe" where
  "drop_columns d labels =
     (case filter (\<lambda>l. l \<notin> fst ` set (columns d)) labels of
        l # _ \<Rightarrow> Inl (KeyError l)
      | [] \<Rightarrow> Inr (d\<lparr>columns := filter (\<lambda>(name, col). name \<notin> set labels) (columns d)\<rparr>))"

text \<open>The table computed by \<open>drop_high_missing\<close> from the table \<open>self.df\<close>.\<close>

definition drop_high_missing :: "dataframe \<Rightarrow> fval \<Rightarrow> error + dataframe" where
  "drop_high_missing d threshold = drop_columns d (cols_to_drop d threshold)"

text \<open>
  The method itself works on objects. The heap is the list of the data frames allocated
  so far and a reference is a position in it; the cleaner stores the reference it was
  given by \<open>__init__\<close>. \<open>DataFrame.drop\<close> is called without \<open>inplace\<close>, so it allocates
  the frame it returns. References held by a program always point into the heap.
\<close>

type_synonym ref = nat
type_synonym heap = "dataframe list"

record SolarDataCleaner =
  df :: ref

definition SolarDataCleaner_init :: "ref \<Rightarrow> SolarDataCleaner" where
  "SolarDataCleaner_init r = \<lparr>df = r\<rparr>"

definition SolarDataCleaner_drop_high_missing ::
  "SolarDataCleaner \<Rightarrow> fval \<Rightarrow> heap \<Rightarrow> error + (ref \<times> SolarDataCleaner \<times> heap)" where
  "SolarDataCleaner_drop_high_missing self threshold h =
     (case drop_high_missing (h ! df self) threshold of
        Inl e \<Rightarrow> Inl e
      | Inr d' \<Rightarrow> Inr (length h, self, h @ [d']))"

text \<open>Examples: the frame of the repository's test script and a frame without rows.\<close>

definition sample_data :: dataframe where
  "sample_data = \<lparr>nrows = 5, columns =
     [(''solar_radiation'', [Num 850, Num 920, NA, Num 780, Num 810]),
      (''temperature'', [Num 25, Num (53 / 2), Num (124 / 5), NA, NA]),
      (''efficiency'', [Num (17 / 20), Num (41 / 50), Num (79 / 100), Num (81 / 100), Num (83 / 100)]),
      (''voltage'', [Num 240, Num 238, Num 239, NA, Num 241])]\<rparr>"

definition empty_rows :: dataframe where
  "empty_rows = \<lparr>nrows = 0, columns = [(''GHI'', []), (''Country'', [])]\<rparr>"

section \<open>Statistics of a column\<close>

text \<open>
  \<open>df[metric]\<close> raises \<open>KeyError\<close> when the frame has no column of that label.
\<close>

definition getitem :: "dataframe \<Rightarrow> string \<Rightarrow> error + column" where
  "getitem d label =
     (case map_of (columns d) label of None \<Rightarrow> Inl (KeyError label) | Some col \<Rightarrow> Inr col)"

text \<open>
  The numeric reductions skip the missing cells and raise \<open>TypeError\<close> on a column that
  holds text.
\<close>

definition numeric_values :: "column \<Rightarrow> error + real list" where
  "numeric_values col =
     (if list_ex (\<lambda>c. case c of Str _ \<Rightarrow> True | _ \<Rightarrow> False) col then Inl TypeError
      else Inr (concat (map (\<lambda>c. case c of Num x \<Rightarrow> [x] | _ \<Rightarrow> []) col)))"

definition mean_of :: "real list \<Rightarrow> fval" where
  "mean_of xs = (if xs = [] then NaN else Fin (sum_list xs / real (length xs)))"

definition median_of :: "real list \<Rightarrow> fval" where
  "median_of xs =
     (let s = sort xs; n = length s in
      if n = 0 then NaN
      else if odd n then Fin (s ! (n div 2))
      else Fin ((s ! (n div 2 - 1) + s ! (n div 2)) / 2))"

text \<open>The sample standard deviation (\<open>ddof = 1\<close>): \<open>NaN\<close> for fewer than two values.\<close>

definition std_of :: "real list \<Rightarrow> fval" where
  "std_of xs =
     (let n = length xs in
      if n < 2 then NaN
      else Fin (sqrt (sum_list (map (\<lambda>x. (x - sum_list xs / real n)\<^sup>2) xs) / real (n - 1))))"

section \<open>\<open>calculate_metrics\<close>\<close>

record metrics =
  mean :: fval
  median :: fval
  std :: fval
  count :: nat

text \<open>
  The dictionary is built entry by entry, so the first failing entry decides the
  exception; \<open>count\<close> is \<open>len(df)\<close>, the length of the index.
\<close>

definition calculate_metrics :: "dataframe \<Rightarrow> string \<Rightarrow> error + metrics" where
  "calculate_metrics d metric =
     (case getitem d metric of
        Inl e \<Rightarrow> Inl e
      | Inr col \<Rightarrow>
          (case numeric_values col of
             Inl e \<Rightarrow> Inl e
           | Inr xs \<Rightarrow>
               Inr \<lparr>mean = mean_of xs, median = median_of xs, std = std_of xs, count = nrows d\<rparr>))"

section \<open>The rankings of \<open>show_regional_rankings\<close>\<close>

text \<open>Arithmetic of numpy doubles on the special values: \<open>1 / x\<close>, \<open>x + y\<close>, \<open>x / 2\<close>.\<close>

fun finv :: "fval \<Rightarrow> fval" where
  "finv NaN = NaN"
| "finv NegInf = Fin 0"
| "finv PosInf = Fin 0"
| "finv (Fin x) = (if x = 0 then PosInf else Fin (1 / x))"

fun fadd :: "fval \<Rightarrow> fval \<Rightarrow> fval" where
  "fadd NaN _ = NaN"
| "fadd _ NaN = NaN"
| "fadd (Fin a) (Fin b) = Fin (a + b)"
| "fadd PosInf NegInf = NaN"
| "fadd NegInf PosInf = NaN"
| "fadd PosInf _ = PosInf"
| "fadd _ PosInf = PosInf"
| "fadd NegInf _ = NegInf"
| "fadd _ NegInf = NegInf"

fun fhalf :: "fval \<Rightarrow> fval" where
  "fhalf (Fin a) = Fin (a / 2)"
| "fhalf v = v"

text \<open>\<open>numpy.rint\<close>: the nearest integer, a tie going to the even one.\<close>

definition rint :: "real \<Rightarrow> real" where
  "rint x =
     (let f = \<lfloor>x\<rfloor>; d = x - of_int f in
      if d < 1 / 2 then of_int f
      else if 1 / 2 < d then of_int (f + 1)
      else if even f then of_int f else of_int (f + 1))"

text \<open>\<open>.round(2)\<close> on a float column.\<close>

fun fround2 :: "fval \<Rightarrow> fval" where
  "fround2 (Fin x) = Fin (rint (x * 100) / 100)"
| "fround2 v = v"

text \<open>
  \<open>groupby('Country')\<close>: the group keys are the distinct non-missing cells of the key
  column in sorted order, numbers before texts. A group holds the cells of the metric
  column in the rows that carry its key.
\<close>

definition group_keys :: "column \<Rightarrow> cell list" where
  "group_keys kc =
     map Num (sort (remdups (concat (map (\<lambda>c. case c of Num x \<Rightarrow> [x] | _ \<Rightarrow> []) kc)))) @
     map Str (sort (remdups (concat (map (\<lambda>c. case c of Str s \<Rightarrow> [s] | _ \<Rightarrow> []) kc))))"

definition group_cells :: "column \<Rightarrow> column \<Rightarrow> cell \<Rightarrow> column" where
  "group_cells kc col k = map snd (filter (\<lambda>(k', c). k' = k) (zip kc col))"

text \<open>
  \<open>df_all.groupby('Country')[ranking_metric]\<close>: the groups with the non-missing values
  of the metric. Both labels must exist; the aggregations need a numeric column.
\<close>

definition metric_groups :: "dataframe \<Rightarrow> string \<Rightarrow> error + (cell \<times> real list) list" where
  "metric_groups df_all ranking_metric =
     (case getitem df_all ''Country'' of
        Inl e \<Rightarrow> Inl e
      | Inr kc \<Rightarrow>
          (case getitem df_all ranking_metric of
             Inl e \<Rightarrow> Inl e
           | Inr col \<Rightarrow>
               (case numeric_values col of
                  Inl e \<Rightarrow> Inl e
                | Inr _ \<Rightarrow>
                    Inr (map (\<lambda>k. (k, concat (map (\<lambda>c. case c of Num x \<Rightarrow> [x] | _ \<Rightarrow> [])
                                          (group_cells kc col k))))
                          (group_keys kc)))))"

text \<open>
  \<open>.agg([('Average', 'mean'), ('Median', 'median'), ('Stability', lambda x: 1/x.std()),
  ('Records', 'count')]).round(2)\<close>: one row per group. \<open>x.std()\<close> is a numpy double, so
  \<open>1/x.std()\<close> is \<open>inf\<close> when the deviation is zero.
\<close>

record summary =
  Country :: cell
  Average :: fval
  Median :: fval
  Stability :: fval
  Records :: nat

definition agg :: "cell \<times> real list \<Rightarrow> summary" where
  "agg g = \<lparr>Country = fst g,
            Average = fround2 (mean_of (snd g)),
            Median = fround2 (median_of (snd g)),
            Stability = fround2 (finv (std_of (snd g))),
            Records = length (snd g)\<rparr>"

text \<open>
  \<open>Series.rank(ascending=False)\<close> with the defaults \<open>method='average'\<close> and
  \<open>na_option='keep'\<close>: in descending order the values equal to \<open>v\<close> take the places after
  the values greater than \<open>v\<close>, and each of them gets the mean of these places; \<open>NaN\<close> is
  not ranked and keeps \<open>NaN\<close>.
\<close>

definition rank_of :: "fval list \<Rightarrow> fval \<Rightarrow> fval" where
  "rank_of vs v =
     (if v = NaN then NaN
      else let first = length (filter (\<lambda>w. fgt w v) vs) + 1;
               last = length (filter (\<lambda>w. fgt w v) vs) + length (filter (\<lambda>w. feq w v) vs)
           in Fin ((real first + real last) / 2))"

record ranking = summary +
  Stability_Rank :: fval
  Potential_Rank :: fval
  Overall_Score :: fval

text \<open>
  The three assignments that add the columns \<open>Stability Rank\<close>, \<open>Potential Rank\<close> and
  \<open>Overall Score\<close> to the frame of the summaries.
\<close>

definition add_ranks :: "summary list \<Rightarrow> ranking list" where
  "add_ranks rows =
     map (\<lambda>r. let s = rank_of (map Stability rows) (Stability r);
                  p = rank_of (map Average rows) (Average r)
              in \<lparr>Country = Country r, Average = Average r, Median = Median r,
                  Stability = Stability r, Records = Records r,
                  Stability_Rank = s, Potential_Rank = p,
                  Overall_Score = fhalf (fadd p s)\<rparr>) rows"

definition rankings :: "dataframe \<Rightarrow> string \<Rightarrow> error + ranking list" where
  "rankings df_all ranking_metric =
     (case metric_groups df_all ranking_metric of
        Inl e \<Rightarrow> Inl e
      | Inr groups \<Rightarrow> Inr (add_ranks (map agg groups)))"

text \<open>
  The dense rank of the specification, in descending order: one more than the number of
  distinct values greater than \<open>v\<close>.
\<close>

definition spec_dense_rank :: "fval list \<Rightarrow> fval \<Rightarrow> fval" where
  "spec_dense_rank vs v =
     (if v = NaN then NaN
      else Fin (real (length (remdups (filter (\<lambda>w. fgt w v) vs)) + 1)))"

text \<open>Examples: two countries with equally spread values, and a country with constant values.\<close>

definition tied_data :: dataframe where
  "tied_data = \<lparr>nrows = 6, columns =
     [(''GHI'', [Num 0, Num 10, Num 2, Num 12, Num 4, Num 14]),
      (''Country'', [Str ''X'', Str ''Y'', Str ''X'', Str ''Y'', Str ''X'', Str ''Y''])]\<rparr>"

definition constant_data :: dataframe where
  "constant_data = \<lparr>nrows = 6, columns =
     [(''GHI'', [Num 5, Num 5, Num 5, Num 1, Num 3, Num 5]),
      (''Country'', [Str ''X'', Str ''X'', Str ''X'', Str ''Y'', Str ''Y'', Str ''Y''])]\<rparr>"

text \<open>The rankings of the two examples.\<close>

definition tied_rankings :: "ranking list" where
  "tied_rankings =
     [\<lparr>Country = Str ''X'', Average = Fin 2, Median = Fin 2, Stability = Fin (1 / 2), Records = 3,
       Stability_Rank = Fin (3 / 2), Potential_Rank = Fin 2, Overall_Score = Fin (7 / 4)\<rparr>,
      \<lparr>Country = Str ''Y'', Average = Fin 12, Median = Fin 12, Stability = Fin (1 / 2), Records = 3,
       Stability_Rank = Fin (3 / 2), Potential_Rank = Fin 1, Overall_Score = Fin (5 / 4)\<rparr>]"

definition constant_rankings :: "ranking list" where
  "constant_rankings =
     [\<lparr>Country = Str ''X'', Average = Fin 5, Median = Fin 5, Stability = PosInf, Records = 3,
       Stability_Rank = Fin 1, Potential_Rank = Fin 1, Overall_Score = Fin 1\<rparr>,
      \<lparr>Country = Str ''Y'', Average = Fin 3, Median = Fin 3, Stability = Fin (1 / 2), Records = 3,
       Stability_Rank = Fin 2, Potential_Rank = Fin 2, Overall_Score = Fin 2\<rparr>]"

section \<open>\<open>load_data\<close>\<close>

text \<open>
  The file system as the loader sees it: a path does not exist, or \<open>read_csv\<close> raises on
  it an exception with some message, or it parses to a data frame. The loader prints to
  the standard output, which is the list of the lines printed so far.
\<close>

datatype csv_file = NotFound | Unreadable string | Csv dataframe

fun raises :: "csv_file \<Rightarrow> bool" where
  "raises (Unreadable _) = True"
| "raises _ = False"

type_synonym filesystem = "string \<Rightarrow> csv_file"

text \<open>\<open>data_dir\<close> is the directory \<open>data\<close> beside the package of the module.\<close>

definition file_paths :: "string \<Rightarrow> (string \<times> string) list" where
  "file_paths data_dir =
     [(''Benin'', data_dir @ ''/benin_clean.csv''),
      (''Sierra Leone'', data_dir @ ''/sierraleone_clean.csv''),
      (''Togo'', data_dir @ ''/togo_clean.csv'')]"

definition warning :: "string \<Rightarrow> string" where
  "warning file_path = ''Warning: '' @ file_path @ '' not found''"

text \<open>
  \<open>df['Country'] = country\<close> overwrites the column of that label, or appends it as the
  last column, with the value in every row.
\<close>

definition setitem :: "dataframe \<Rightarrow> string \<Rightarrow> cell \<Rightarrow> dataframe" where
  "setitem d label v =
     (if label \<in> fst ` set (columns d)
      then d\<lparr>columns := map (\<lambda>(name, col). if name = label then (name, replicate (nrows d) v)
                                         else (name, col)) (columns d)\<rparr>
      else d\<lparr>columns := columns d @ [(label, replicate (nrows d) v)]\<rparr>)"

text \<open>
  \<open>pd.concat(dataframes, ignore_index=True)\<close>: the rows of the frames one after the other;
  the columns are the labels of all frames in the order of their first appearance, and a
  frame without a label contributes missing cells.
\<close>

definition concat_frames :: "dataframe list \<Rightarrow> dataframe" where
  "concat_frames dfs =
     \<lparr>nrows = sum_list (map nrows dfs),
      columns = map (\<lambda>label. (label, concat (map (\<lambda>d. case map_of (columns d) label of
                                                       Some col \<Rightarrow> col
                                                     | None \<Rightarrow> replicate (nrows d) NA) dfs)))
                  (rev (remdups (rev (concat (map (\<lambda>d. map fst (columns d)) dfs)))))\<rparr>"

text \<open>
  The loop over \<open>file_paths.items()\<close>. An exception of \<open>read_csv\<close> leaves the loop; what
  was printed before stays printed.
\<close>

fun load_loop ::
  "filesystem \<Rightarrow> (string \<times> string) list \<Rightarrow> dataframe list \<Rightarrow> string list
     \<Rightarrow> string list \<times> (string + dataframe list)" where
  "load_loop fs [] dataframes out = (out, Inr dataframes)"
| "load_loop fs ((country, file_path) # rest) dataframes out =
     (case fs file_path of
        NotFound \<Rightarrow> load_loop fs rest dataframes (out @ [warning file_path])
      | Unreadable msg \<Rightarrow> (out, Inl msg)
      | Csv d \<Rightarrow> load_loop fs rest (dataframes @ [setitem d ''Country'' (Str country)]) out)"

text \<open>
  \<open>load_data\<close> returns the printed lines and the combined frame, or \<open>None\<close>: when no
  file was found, and in the handler of the \<open>try\<close> block.
\<close>

definition load_data :: "string \<Rightarrow> filesystem \<Rightarrow> string list \<times> dataframe option" where
  "load_data data_dir fs =
     (case load_loop fs (file_paths data_dir) [] [] of
        (out, Inl e) \<Rightarrow> (out @ [''Error loading data: '' @ e], None)
      | (out, Inr dataframes) \<Rightarrow>
          if dataframes = [] then (out, None) else (out, Some (concat_frames dataframes)))"

text \<open>Example: only the file of Benin exists.\<close>

definition only_benin :: filesystem where
  "only_benin file_path =
     (if file_path = ''data/benin_clean.csv''
      then Csv \<lparr>nrows = 2, columns = [(''GHI'', [Num 1, NA])]\<rparr>
      else NotFound)"

section \<open>Properties of \<open>drop_high_missing\<close>\<close>

lemma mem_cols_to_drop:
  "n \<in> set (cols_to_drop d t) \<longleftrightarrow>
     (\<exists>col. (n, col) \<in> set (columns d) \<and> fgt (bool_mean (isna col)) t)"
  by (force simp: cols_to_drop_def missing_frac_def)

lemma cols_to_drop_labels: "filter (\<lambda>l. l \<notin> fst ` set (columns d)) (cols_to_drop d t) = []"
  by (force simp: filter_empty_conv mem_cols_to_drop)

lemma drop_high_missing_result:
  "drop_high_missing d t =
     Inr (d\<lparr>columns := filter (\<lambda>(name, col). name \<notin> set (cols_to_drop d t)) (columns d)\<rparr>)"
  by (simp add: drop_high_missing_def drop_columns_def cols_to_drop_labels)


lemma kept_columns_again:
  "cols_to_drop (d\<lparr>columns := filter (\<lambda>(name, col). name \<notin> set (cols_to_drop d t)) (columns d)\<rparr>) t = []"
proof -
  let ?d' = "d\<lparr>columns := filter (\<lambda>(name, col). name \<notin> set (cols_to_drop d t)) (columns d)\<rparr>"
  have none: "n \<notin> set (cols_to_drop ?d' t)" for n
  proof
    assume "n \<in> set (cols_to_drop ?d' t)"
    then obtain col where c: "(n, col) \<in> set (columns ?d')" "fgt (bool_mean (isna col)) t"
      unfolding mem_cols_to_drop by blast
    from c(1) have "(n, col) \<in> set (columns d)" "n \<notin> set (cols_to_drop d t)"
      by simp_all
    with c(2) show False
      unfolding mem_cols_to_drop by blast
  qed
  show ?thesis
  proof (cases "cols_to_drop ?d' t")
    case Nil
    then show ?thesis .
  next
    case (Cons a as)
    with none[of a] show ?thesis by simp
  qed
qed


lemma length_isna: "length (isna col) = length col"
  by (simp add: isna_def)

lemma wf_column_len:
  "wf_dataframe d \<Longrightarrow> (name, col) \<in> set (columns d) \<Longrightarrow> length (isna col) = nrows d"
  by (auto simp: wf_dataframe_def list_all_iff length_isna)



text \<open>
  Claim C5. Filtering is idempotent: for every frame and every threshold the call returns
  a frame, and filtering that frame again at the same threshold returns it unchanged.
\<close>

theorem drop_high_missing_idempotent:
  "\<exists>d'. drop_high_missing d t = Inr d' \<and> drop_high_missing d' t = Inr d'"
proof -
  let ?d' = "d\<lparr>columns := filter (\<lambda>(name, col). name \<notin> set (cols_to_drop d t)) (columns d)\<rparr>"
  have "drop_high_missing ?d' t = Inr ?d'"
    unfolding drop_high_missing_result[of ?d' t] kept_columns_again by simp
  then show ?thesis
    using drop_high_missing_result[of d t] by blast
qed

text \<open>
  Claim C10. A data frame without rows loses no column, whatever the threshold is: the
  missing fraction of each column is \<open>NaN\<close> and does not exceed the threshold.
\<close>

theorem drop_high_missing_zero_rows:
  assumes "wf_dataframe d" and "nrows d = 0"
  shows "drop_high_missing d t = Inr d"
proof -
  have "cols_to_drop d t = []"
  proof (cases "cols_to_drop d t")
    case Nil
    then show ?thesis .
  next
    case (Cons n ns)
    then have "n \<in> set (cols_to_drop d t)" by simp
    then obtain col where c: "(n, col) \<in> set (columns d)" "fgt (bool_mean (isna col)) t"
      unfolding mem_cols_to_drop by blast
    have "isna col = []"
      using wf_column_len[OF assms(1) c(1)] assms(2) by simp
    with c(2) show ?thesis
      by (simp add: bool_mean_def)
  qed
  then show ?thesis
    unfolding drop_high_missing_result by simp
qed


lemma wf_empty_rows: "wf_dataframe empty_rows"
  by (simp add: wf_dataframe_def empty_rows_def)



theorem drop_high_missing_zero_rows_witness:
  "wf_dataframe empty_rows \<and> nrows empty_rows = 0 \<and>
   drop_high_missing empty_rows (Fin (1 / 20)) = Inr empty_rows"
proof -
  have n: "nrows empty_rows = 0"
    by (simp add: empty_rows_def)
  show ?thesis
    using drop_high_missing_zero_rows[OF wf_empty_rows n, of "Fin (1 / 20)"] wf_empty_rows n
    by simp
qed

text \<open>
  Claim C8. The call has no effect on its input: the cleaner still holds the same
  reference, every frame that was on the heap (the cleaner's among them) is unchanged, the
  result is a newly allocated frame, and it has the input's row count and only columns of
  the input, with their cells.
\<close>

theorem drop_high_missing_no_side_effect:
  assumes "df self < length h"
  shows "\<exists>d'. SolarDataCleaner_drop_high_missing self t h = Inr (length h, self, h @ [d']) \<and>
           length h \<noteq> df self \<and>
           (h @ [d']) ! df self = h ! df self \<and>
           take (length h) (h @ [d']) = h \<and>
           (h @ [d']) ! length h = d' \<and>
           nrows d' = nrows (h ! df self) \<and>
           set (columns d') \<subseteq> set (columns (h ! df self))"
proof -
  let ?d = "h ! df self"
  let ?d' = "?d\<lparr>columns := filter (\<lambda>(name, col). name \<notin> set (cols_to_drop ?d t)) (columns ?d)\<rparr>"
  have "SolarDataCleaner_drop_high_missing self t h = Inr (length h, self, h @ [?d'])"
    by (simp add: SolarDataCleaner_drop_high_missing_def drop_high_missing_result)
  moreover have "(h @ [?d']) ! df self = h ! df self"
    using assms by (simp add: nth_append)
  moreover have "length h \<noteq> df self"
    using assms by simp
  moreover have "set (columns ?d') \<subseteq> set (columns ?d)"
    by auto
  ultimately show ?thesis
    by (intro exI[of _ ?d']) simp
qed

theorem drop_high_missing_no_side_effect_witness:
  "df (SolarDataCleaner_init 0) < length [sample_data] \<and>
   SolarDataCleaner_drop_high_missing (SolarDataCleaner_init 0) (Fin (3 / 10)) [sample_data] =
     Inr (1, SolarDataCleaner_init 0,
       [sample_data, sample_data\<lparr>columns := [columns sample_data ! 0, columns sample_data ! 2, columns sample_data ! 3]\<rparr>])"
proof -
  have l: "df (SolarDataCleaner_init 0) < length [sample_data]"
    by (simp add: SolarDataCleaner_init_def)
  obtain d' where r: "SolarDataCleaner_drop_high_missing (SolarDataCleaner_init 0) (Fin (3 / 10)) [sample_data] =
      Inr (length [sample_data], SolarDataCleaner_init 0, [sample_data] @ [d'])"
    using drop_high_missing_no_side_effect[OF l, of "Fin (3 / 10)"] by blast
  have "cols_to_drop sample_data (Fin (3 / 10)) = [''temperature'']"
    by (simp add: cols_to_drop_def missing_frac_def sample_data_def bool_mean_def isna_def)
  then have "drop_high_missing sample_data (Fin (3 / 10)) =
      Inr (sample_data\<lparr>columns := [columns sample_data ! 0, columns sample_data ! 2, columns sample_data ! 3]\<rparr>)"
    by (simp add: drop_high_missing_def drop_columns_def sample_data_def)
  then have "d' = sample_data\<lparr>columns := [columns sample_data ! 0, columns sample_data ! 2, columns sample_data ! 3]\<rparr>"
    using r by (simp add: SolarDataCleaner_drop_high_missing_def SolarDataCleaner_init_def)
  then show ?thesis
    using r l by simp
qed

section \<open>Properties of \<open>calculate_metrics\<close>\<close>

lemma wf_map_of_length:
  "wf_dataframe d \<Longrightarrow> map_of (columns d) label = Some col \<Longrightarrow> length col = nrows d"
  by (auto simp: wf_dataframe_def list_all_iff dest: map_of_SomeD)

lemma numeric_values_length: "numeric_values col = Inr xs \<Longrightarrow> length xs \<le> length col"
proof -
  have "length (concat (map (\<lambda>c. case c of Num x \<Rightarrow> [x] | _ \<Rightarrow> []) cs)) \<le> length cs" for cs :: column
    by (induction cs) (auto split: cell.splits)
  then show "numeric_values col = Inr xs \<Longrightarrow> length xs \<le> length col"
    by (auto simp: numeric_values_def split: if_splits)
qed

text \<open>
  Claim C3. On a numeric column that the frame has, \<open>calculate_metrics\<close> returns, and its
  \<open>count\<close> is the number of rows of the frame: every cell of the metric column is counted,
  the missing ones too, so the number of non-missing values is at most \<open>count\<close> and
  may differ from it.
\<close>

theorem calculate_metrics_count:
  assumes "wf_dataframe d"
    and "map_of (columns d) metric = Some col"
    and "numeric_values col = Inr xs"
  shows "\<exists>r. calculate_metrics d metric = Inr r \<and> count r = nrows d \<and>
           count r = length col \<and> length xs \<le> count r"
proof -
  have "calculate_metrics d metric =
      Inr \<lparr>mean = mean_of xs, median = median_of xs, std = std_of xs, count = nrows d\<rparr>"
    using assms(2,3) by (simp add: calculate_metrics_def getitem_def)
  moreover have "length col = nrows d"
    using assms(1,2) by (rule wf_map_of_length)
  moreover have "length xs \<le> length col"
    using assms(3) by (rule numeric_values_length)
  ultimately show ?thesis
    by simp
qed

theorem calculate_metrics_count_witness:
  "wf_dataframe sample_data \<and>
   map_of (columns sample_data) ''temperature'' = Some [Num 25, Num (53 / 2), Num (124 / 5), NA, NA] \<and>
   numeric_values [Num 25, Num (53 / 2), Num (124 / 5), NA, NA] = Inr [25, 53 / 2, 124 / 5] \<and>
   (\<exists>r. calculate_metrics sample_data ''temperature'' = Inr r \<and> count r = 5 \<and>
        length [25, 53 / 2, 124 / 5 :: real] = 3)"
proof -
  have wf: "wf_dataframe sample_data"
    by (simp add: wf_dataframe_def sample_data_def)
  have col: "map_of (columns sample_data) ''temperature'' = Some [Num 25, Num (53 / 2), Num (124 / 5), NA, NA]"
    by (simp add: sample_data_def)
  have xs: "numeric_values [Num 25, Num (53 / 2), Num (124 / 5), NA, NA] = Inr [25, 53 / 2, 124 / 5]"
    by (simp add: numeric_values_def)
  have n: "nrows sample_data = 5"
    by (simp add: sample_data_def)
  show ?thesis
    using calculate_metrics_count[OF wf col xs] wf col xs n by auto
qed

text \<open>
  Claim C9. When the frame has no column of the requested label, \<open>calculate_metrics\<close>
  fails with the \<open>KeyError\<close> of the look-up; nothing in the function catches it.
\<close>

theorem calculate_metrics_absent_column:
  assumes "metric \<notin> fst ` set (columns d)"
  shows "calculate_metrics d metric = Inl (KeyError metric)"
proof -
  have "map_of (columns d) metric = None"
    using assms by (simp add: map_of_eq_None_iff)
  then show ?thesis
    by (simp add: calculate_metrics_def getitem_def)
qed

theorem calculate_metrics_absent_column_witness:
  "''GHI'' \<notin> fst ` set (columns sample_data) \<and>
   calculate_metrics sample_data ''GHI'' = Inl (KeyError ''GHI'')"
proof -
  have a: "''GHI'' \<notin> fst ` set (columns sample_data)"
    by (simp add: sample_data_def)
  show ?thesis
    using calculate_metrics_absent_column[OF a] a by simp
qed

section \<open>Properties of the rankings\<close>

lemma fgt_trans: "fgt a b \<Longrightarrow> fgt b c \<Longrightarrow> fgt a c"
  by (cases a; cases b; cases c) auto

lemma feq_fgt_trans: "feq a b \<Longrightarrow> fgt b c \<Longrightarrow> fgt a c"
  by (cases a; cases b; cases c) auto

lemma fgt_not_feq: "fgt a b \<Longrightarrow> \<not> feq a b"
  by (cases a; cases b) auto

lemma feq_imp_eq: "feq a b \<Longrightarrow> a = b"
  by (cases a; cases b) auto

lemma feq_iff_eq: "v \<noteq> NaN \<Longrightarrow> feq w v = (w = v)"
  by (cases w; cases v) auto

lemma fgt_not_NaN: "fgt a b \<Longrightarrow> a \<noteq> NaN \<and> b \<noteq> NaN"
  by (cases a; cases b) auto

lemma count_greater_mono:
  assumes "fgt v w"
  shows "length (filter (\<lambda>x. fgt x v) vs) + length (filter (\<lambda>x. feq x v) vs)
           \<le> length (filter (\<lambda>x. fgt x w) vs)"
proof (induction vs)
  case Nil
  show ?case by simp
next
  case (Cons x vs)
  have 1: "fgt x v \<Longrightarrow> fgt x w" using assms by (rule fgt_trans[rotated])
  have 2: "feq x v \<Longrightarrow> fgt x w" using assms by (rule feq_fgt_trans[rotated])
  have 3: "fgt x v \<Longrightarrow> \<not> feq x v" by (rule fgt_not_feq)
  show ?case
    using Cons.IH 1 2 3 by (cases "fgt x v"; cases "feq x v") simp_all
qed

lemma rank_of_Fin:
  "v \<noteq> NaN \<Longrightarrow> rank_of vs v =
     Fin ((real (length (filter (\<lambda>w. fgt w v) vs) + 1) +
           real (length (filter (\<lambda>w. fgt w v) vs) + length (filter (\<lambda>w. feq w v) vs))) / 2)"
  by (simp add: rank_of_def Let_def)

lemma rank_of_antitone:
  assumes "fgt v w"
  shows "\<exists>a b. rank_of vs v = Fin a \<and> rank_of vs w = Fin b \<and> a \<le> b"
proof -
  let ?g = "\<lambda>u. length (filter (\<lambda>x. fgt x u) vs)"
  let ?e = "\<lambda>u. length (filter (\<lambda>x. feq x u) vs)"
  have nn: "v \<noteq> NaN" "w \<noteq> NaN"
    using fgt_not_NaN[OF assms] by simp_all
  have le: "?g v + ?e v \<le> ?g w"
    using assms by (rule count_greater_mono)
  then have "(?g v + 1) + (?g v + ?e v) \<le> (?g w + 1) + (?g w + ?e w)"
    by linarith
  then have "real ((?g v + 1) + (?g v + ?e v)) \<le> real ((?g w + 1) + (?g w + ?e w))"
    by (rule iffD2[OF of_nat_le_iff])
  then have "(real (?g v + 1) + real (?g v + ?e v)) / 2 \<le> (real (?g w + 1) + real (?g w + ?e w)) / 2"
    by simp
  then show ?thesis
    unfolding rank_of_Fin[OF nn(1)] rank_of_Fin[OF nn(2)] by blast
qed

lemma rank_of_weak_antitone:
  assumes "fge v w"
  shows "\<exists>a b. rank_of vs v = Fin a \<and> rank_of vs w = Fin b \<and> a \<le> b"
proof (cases "fgt v w")
  case True
  then show ?thesis by (rule rank_of_antitone)
next
  case False
  then have e: "feq v w" using assms by (simp add: fge_def)
  then have "v = w" by (rule feq_imp_eq)
  moreover have "w \<noteq> NaN" using e by (cases v; cases w) auto
  ultimately obtain a where "rank_of vs v = Fin a" "rank_of vs w = Fin a"
    using rank_of_Fin[of w vs] by blast
  then show ?thesis
    by blast
qed

lemma add_ranks_columns:
  "map Stability (add_ranks ss) = map Stability ss" "map Average (add_ranks ss) = map Average ss"
  by (simp_all add: add_ranks_def Let_def comp_def)

lemma add_ranks_row:
  assumes "r \<in> set (add_ranks ss)"
  shows "Stability_Rank r = rank_of (map Stability ss) (Stability r)"
    and "Potential_Rank r = rank_of (map Average ss) (Average r)"
    and "Overall_Score r = fhalf (fadd (Potential_Rank r) (Stability_Rank r))"
  using assms by (auto simp: add_ranks_def Let_def)

lemma rankings_rows:
  assumes "rankings d m = Inr rows" and "r \<in> set rows"
  shows "Stability_Rank r = rank_of (map Stability rows) (Stability r)"
    and "Potential_Rank r = rank_of (map Average rows) (Average r)"
    and "Overall_Score r = fhalf (fadd (Potential_Rank r) (Stability_Rank r))"
proof -
  obtain groups where rows: "rows = add_ranks (map agg groups)"
    using assms(1) by (auto simp: rankings_def split: sum.splits)
  show "Stability_Rank r = rank_of (map Stability rows) (Stability r)"
    using add_ranks_row(1)[of r "map agg groups"] assms(2)
    unfolding rows add_ranks_columns by simp
  show "Potential_Rank r = rank_of (map Average rows) (Average r)"
    using add_ranks_row(2)[of r "map agg groups"] assms(2)
    unfolding rows add_ranks_columns by simp
  show "Overall_Score r = fhalf (fadd (Potential_Rank r) (Stability_Rank r))"
    using add_ranks_row(3)[of r "map agg groups"] assms(2)
    unfolding rows by simp
qed

lemma rank_of_distinct:
  assumes "distinct vs" and "v \<in> set vs"
  shows "rank_of vs v = spec_dense_rank vs v"
proof (cases "v = NaN")
  case True
  then show ?thesis by (simp add: rank_of_def spec_dense_rank_def)
next
  case False
  have "filter (\<lambda>w. feq w v) vs = filter (\<lambda>w. w = v) vs"
    using feq_iff_eq[OF False] by simp
  then have e: "length (filter (\<lambda>w. feq w v) vs) = 1"
    using assms by (simp add: distinct_length_filter)
  have "distinct (filter (\<lambda>w. fgt w v) vs)"
    using assms(1) by simp
  then have g: "remdups (filter (\<lambda>w. fgt w v) vs) = filter (\<lambda>w. fgt w v) vs"
    by (rule distinct_remdups_id)
  show ?thesis
    unfolding rank_of_Fin[OF False] spec_dense_rank_def g e using False by simp
qed

lemma metric_groups_tied_data:
  "metric_groups tied_data ''GHI'' = Inr [(Str ''X'', [0, 2, 4]), (Str ''Y'', [10, 12, 14])]"
  by (simp add: metric_groups_def getitem_def tied_data_def numeric_values_def group_keys_def
      group_cells_def)

lemma agg_tied_X:
  "agg (Str ''X'', [0, 2, 4]) =
     \<lparr>Country = Str ''X'', Average = Fin 2, Median = Fin 2, Stability = Fin (1 / 2), Records = 3\<rparr>"
  by (simp add: agg_def mean_of_def median_of_def std_of_def rint_def Let_def)

lemma agg_tied_Y:
  "agg (Str ''Y'', [10, 12, 14]) =
     \<lparr>Country = Str ''Y'', Average = Fin 12, Median = Fin 12, Stability = Fin (1 / 2), Records = 3\<rparr>"
  by (simp add: agg_def mean_of_def median_of_def std_of_def rint_def Let_def)

lemma rankings_tied_data: "rankings tied_data ''GHI'' = Inr tied_rankings"
  by (simp add: rankings_def metric_groups_tied_data agg_tied_X agg_tied_Y add_ranks_def
      rank_of_def Let_def tied_rankings_def)

lemma metric_groups_constant_data:
  "metric_groups constant_data ''GHI'' = Inr [(Str ''X'', [5, 5, 5]), (Str ''Y'', [1, 3, 5])]"
  by (simp add: metric_groups_def getitem_def constant_data_def numeric_values_def group_keys_def
      group_cells_def)

lemma agg_constant_X:
  "agg (Str ''X'', [5, 5, 5]) =
     \<lparr>Country = Str ''X'', Average = Fin 5, Median = Fin 5, Stability = PosInf, Records = 3\<rparr>"
  by (simp add: agg_def mean_of_def median_of_def std_of_def rint_def Let_def)

lemma agg_constant_Y:
  "agg (Str ''Y'', [1, 3, 5]) =
     \<lparr>Country = Str ''Y'', Average = Fin 3, Median = Fin 3, Stability = Fin (1 / 2), Records = 3\<rparr>"
  by (simp add: agg_def mean_of_def median_of_def std_of_def rint_def Let_def)

lemma rankings_constant_data: "rankings constant_data ''GHI'' = Inr constant_rankings"
  by (simp add: rankings_def metric_groups_constant_data agg_constant_X agg_constant_Y add_ranks_def
      rank_of_def Let_def constant_rankings_def)

text \<open>
  Claim C2, as amended. In every row of the rankings, \<open>Potential Rank\<close> is the rank of
  the row's average and \<open>Stability Rank\<close> the rank of the row's stability, both in
  descending order by the average method of pandas (tied values share the mean of the
  places they occupy), and \<open>Overall Score\<close> is half the sum of the two ranks. When the
  values of a column are pairwise different, its rank is the dense rank.
\<close>

theorem rankings_average_rank:
  assumes "rankings d m = Inr rows" and "r \<in> set rows"
  shows "Potential_Rank r = rank_of (map Average rows) (Average r) \<and>
         Stability_Rank r = rank_of (map Stability rows) (Stability r) \<and>
         Overall_Score r = fhalf (fadd (Potential_Rank r) (Stability_Rank r)) \<and>
         (distinct (map Average rows) \<longrightarrow>
            Potential_Rank r = spec_dense_rank (map Average rows) (Average r)) \<and>
         (distinct (map Stability rows) \<longrightarrow>
            Stability_Rank r = spec_dense_rank (map Stability rows) (Stability r))"
proof -
  note rr = rankings_rows[OF assms]
  have a: "Average r \<in> set (map Average rows)" and s: "Stability r \<in> set (map Stability rows)"
    using assms(2) by simp_all
  have "distinct (map Average rows) \<longrightarrow>
      Potential_Rank r = spec_dense_rank (map Average rows) (Average r)"
    using rank_of_distinct[OF _ a] rr(2) by simp
  moreover have "distinct (map Stability rows) \<longrightarrow>
      Stability_Rank r = spec_dense_rank (map Stability rows) (Stability r)"
    using rank_of_distinct[OF _ s] rr(1) by simp
  ultimately show ?thesis
    using rr by simp
qed

theorem rankings_average_rank_witness:
  "rankings constant_data ''GHI'' = Inr constant_rankings \<and>
   constant_rankings ! 1 \<in> set constant_rankings \<and>
   distinct (map Average constant_rankings) \<and> distinct (map Stability constant_rankings) \<and>
   Potential_Rank (constant_rankings ! 1) = Fin 2 \<and>
   spec_dense_rank (map Average constant_rankings) (Average (constant_rankings ! 1)) = Fin 2 \<and>
   Stability_Rank (constant_rankings ! 1) = Fin 2 \<and>
   spec_dense_rank (map Stability constant_rankings) (Stability (constant_rankings ! 1)) = Fin 2 \<and>
   Overall_Score (constant_rankings ! 1) = Fin 2"
proof -
  have m: "constant_rankings ! 1 \<in> set constant_rankings"
    by (simp add: constant_rankings_def)
  have da: "distinct (map Average constant_rankings)"
    and ds: "distinct (map Stability constant_rankings)"
    by (simp_all add: constant_rankings_def)
  note t = rankings_average_rank[OF rankings_constant_data m]
  have p: "Potential_Rank (constant_rankings ! 1) = Fin 2"
    and s: "Stability_Rank (constant_rankings ! 1) = Fin 2"
    and o: "Overall_Score (constant_rankings ! 1) = Fin 2"
    by (simp_all add: constant_rankings_def)
  have "spec_dense_rank (map Average constant_rankings) (Average (constant_rankings ! 1)) = Fin 2"
    using t da p by metis
  moreover have "spec_dense_rank (map Stability constant_rankings) (Stability (constant_rankings ! 1)) = Fin 2"
    using t ds s by metis
  ultimately show ?thesis
    using rankings_constant_data m da ds p s o by blast
qed

text \<open>
  Claim C2 as stated fails when values tie: two countries with the same stability both get
  the stability rank 1.5, where the dense rank is 1.
\<close>

theorem rankings_dense_rank_counterexample:
  "rankings tied_data ''GHI'' = Inr tied_rankings \<and>
   Stability_Rank (tied_rankings ! 0) = Fin (3 / 2) \<and>
   spec_dense_rank (map Stability tied_rankings) (Stability (tied_rankings ! 0)) = Fin 1"
  using rankings_tied_data by (simp add: spec_dense_rank_def tied_rankings_def)




text \<open>
  Claim C6. For two rows \<open>A\<close> and \<open>B\<close> of the same rankings, if the average of \<open>A\<close> is
  greater than that of \<open>B\<close> and the stability of \<open>A\<close> is at least that of \<open>B\<close>, then
  the overall score of \<open>A\<close> is at most that of \<open>B\<close>.
\<close>

theorem ranking_monotone:
  assumes "rankings d m = Inr rows" and "A \<in> set rows" and "B \<in> set rows"
    and "fgt (Average A) (Average B)" and "fge (Stability A) (Stability B)"
  shows "fle (Overall_Score A) (Overall_Score B)"
proof -
  note ra = rankings_rows[OF assms(1,2)] and rb = rankings_rows[OF assms(1,3)]
  obtain pa pb where p: "Potential_Rank A = Fin pa" "Potential_Rank B = Fin pb" "pa \<le> pb"
    using rank_of_antitone[OF assms(4), of "map Average rows"] ra(2) rb(2) by auto
  obtain sa sb where s: "Stability_Rank A = Fin sa" "Stability_Rank B = Fin sb" "sa \<le> sb"
    using rank_of_weak_antitone[OF assms(5), of "map Stability rows"] ra(1) rb(1) by auto
  have "Overall_Score A = Fin ((pa + sa) / 2)" "Overall_Score B = Fin ((pb + sb) / 2)"
    using ra(3) rb(3) p s by simp_all
  moreover have "(pa + sa) / 2 \<le> (pb + sb) / 2"
    using p(3) s(3) by simp
  ultimately show ?thesis
    by (auto simp: fle_def fge_def)
qed

theorem ranking_monotone_witness:
  "rankings tied_data ''GHI'' = Inr tied_rankings \<and>
   tied_rankings ! 1 \<in> set tied_rankings \<and> tied_rankings ! 0 \<in> set tied_rankings \<and>
   fgt (Average (tied_rankings ! 1)) (Average (tied_rankings ! 0)) \<and>
   fge (Stability (tied_rankings ! 1)) (Stability (tied_rankings ! 0)) \<and>
   fle (Overall_Score (tied_rankings ! 1)) (Overall_Score (tied_rankings ! 0))"
proof -
  have my: "tied_rankings ! 1 \<in> set tied_rankings" and mx: "tied_rankings ! 0 \<in> set tied_rankings"
    by (simp_all add: tied_rankings_def)
  have a: "fgt (Average (tied_rankings ! 1)) (Average (tied_rankings ! 0))"
    and s: "fge (Stability (tied_rankings ! 1)) (Stability (tied_rankings ! 0))"
    by (simp_all add: fge_def tied_rankings_def)
  show ?thesis
    using ranking_monotone[OF rankings_tied_data my mx a s] rankings_tied_data my mx a s by blast
qed

subsection \<open>Monotonicity on the unrounded statistics\<close>

lemma rint_bounds: "of_int \<lfloor>x\<rfloor> \<le> rint x \<and> rint x \<le> of_int \<lfloor>x\<rfloor> + 1"
  by (simp add: rint_def Let_def)

lemma rint_mono:
  assumes "x \<le> y"
  shows "rint x \<le> rint y"
proof (cases "\<lfloor>x\<rfloor> < \<lfloor>y\<rfloor>")
  case True
  then have "(of_int \<lfloor>x\<rfloor> :: real) + 1 \<le> of_int \<lfloor>y\<rfloor>"
    by (metis of_int_1 of_int_add of_int_le_iff zless_imp_add1_zle)
  then show ?thesis
    using rint_bounds[of x] rint_bounds[of y] by linarith
next
  case False
  then have eq: "\<lfloor>x\<rfloor> = \<lfloor>y\<rfloor>"
    using floor_mono[OF assms] by simp
  have "x - of_int \<lfloor>y\<rfloor> \<le> y - of_int \<lfloor>y\<rfloor>"
    using assms by simp
  then show ?thesis
    by (simp add: rint_def Let_def eq)
qed

lemma fge_Fin: "fge (Fin a) (Fin b) = (b \<le> a)"
  by (auto simp: fge_def)

lemma fround2_mono: "fge a b \<Longrightarrow> fge (fround2 a) (fround2 b)"
proof (cases a; cases b)
  fix x y assume ab: "fge a b" "a = Fin x" "b = Fin y"
  then have "y * 100 \<le> x * 100"
    by (simp add: fge_Fin)
  then have "rint (y * 100) \<le> rint (x * 100)"
    by (rule rint_mono)
  then show "fge (fround2 a) (fround2 b)"
    by (simp add: ab fge_Fin)
qed (auto simp: fge_def)

lemma add_ranks_of_summary:
  assumes "s \<in> set ss"
  shows "\<exists>r \<in> set (add_ranks ss). Country r = Country s \<and>
           Potential_Rank r = rank_of (map Average ss) (Average s) \<and>
           Stability_Rank r = rank_of (map Stability ss) (Stability s) \<and>
           Overall_Score r = fhalf (fadd (Potential_Rank r) (Stability_Rank r))"
  using assms by (auto simp: add_ranks_def Let_def)

text \<open>
  The same monotonicity holds for the statistics of the groups before \<open>.round(2)\<close>:
  rounding to two decimals is monotone, so it can merge two values but never swaps them.
\<close>

lemma ranking_monotone_unrounded:
  assumes "metric_groups d m = Inr groups" and "gA \<in> set groups" and "gB \<in> set groups"
    and "fgt (mean_of (snd gA)) (mean_of (snd gB))"
    and "fge (finv (std_of (snd gA))) (finv (std_of (snd gB)))"
  shows "\<exists>rows A B. rankings d m = Inr rows \<and> A \<in> set rows \<and> B \<in> set rows \<and>
           Country A = fst gA \<and> Country B = fst gB \<and>
           fle (Overall_Score A) (Overall_Score B)"
proof -
  let ?ss = "map agg groups"
  have rows: "rankings d m = Inr (add_ranks ?ss)"
    using assms(1) by (simp add: rankings_def)
  have "agg gA \<in> set ?ss" "agg gB \<in> set ?ss"
    using assms(2,3) by simp_all
  then obtain A B where A: "A \<in> set (add_ranks ?ss)" "Country A = Country (agg gA)"
      "Potential_Rank A = rank_of (map Average ?ss) (Average (agg gA))"
      "Stability_Rank A = rank_of (map Stability ?ss) (Stability (agg gA))"
      "Overall_Score A = fhalf (fadd (Potential_Rank A) (Stability_Rank A))"
    and B: "B \<in> set (add_ranks ?ss)" "Country B = Country (agg gB)"
      "Potential_Rank B = rank_of (map Average ?ss) (Average (agg gB))"
      "Stability_Rank B = rank_of (map Stability ?ss) (Stability (agg gB))"
      "Overall_Score B = fhalf (fadd (Potential_Rank B) (Stability_Rank B))"
    using add_ranks_of_summary[of "agg gA" ?ss] add_ranks_of_summary[of "agg gB" ?ss] by blast
  have "fge (mean_of (snd gA)) (mean_of (snd gB))"
    using assms(4) by (simp add: fge_def)
  then have av: "fge (Average (agg gA)) (Average (agg gB))"
    by (simp add: agg_def fround2_mono)
  have st: "fge (Stability (agg gA)) (Stability (agg gB))"
    using assms(5) by (simp add: agg_def fround2_mono)
  obtain pa pb where p: "Potential_Rank A = Fin pa" "Potential_Rank B = Fin pb" "pa \<le> pb"
    using rank_of_weak_antitone[OF av, of "map Average ?ss"] A(3) B(3) by auto
  obtain sa sb where s: "Stability_Rank A = Fin sa" "Stability_Rank B = Fin sb" "sa \<le> sb"
    using rank_of_weak_antitone[OF st, of "map Stability ?ss"] A(4) B(4) by auto
  have "Overall_Score A = Fin ((pa + sa) / 2)" "Overall_Score B = Fin ((pb + sb) / 2)"
    using A(5) B(5) p s by simp_all
  moreover have "(pa + sa) / 2 \<le> (pb + sb) / 2"
    using p(3) s(3) by simp
  ultimately have "fle (Overall_Score A) (Overall_Score B)"
    by (auto simp: fle_def fge_def)
  moreover have "Country A = fst gA" "Country B = fst gB"
    using A(2) B(2) by (simp_all add: agg_def)
  ultimately show ?thesis
    using rows A(1) B(1) by blast
qed

section \<open>Properties of \<open>load_data\<close>\<close>

lemma load_loop_readable:
  assumes "list_all (\<lambda>(country, path). \<not> raises (fs path)) ps"
  shows "load_loop fs ps dataframes out =
    (out @ concat (map (\<lambda>(country, path). case fs path of NotFound \<Rightarrow> [warning path] | _ \<Rightarrow> []) ps),
     Inr (dataframes @ concat (map (\<lambda>(country, path).
        case fs path of Csv d \<Rightarrow> [setitem d ''Country'' (Str country)] | _ \<Rightarrow> []) ps)))"
  using assms
proof (induction ps arbitrary: dataframes out)
  case Nil
  show ?case by simp
next
  case (Cons a ps)
  obtain country path where a: "a = (country, path)" by (cases a)
  from Cons.prems have rest: "list_all (\<lambda>(country, path). \<not> raises (fs path)) ps"
    and here: "\<not> raises (fs path)"
    by (simp_all add: a)
  show ?case
  proof (cases "fs path")
    case NotFound
    then show ?thesis by (simp add: a Cons.IH[OF rest])
  next
    case (Unreadable msg)
    with here show ?thesis by simp
  next
    case (Csv d)
    then show ?thesis by (simp add: a Cons.IH[OF rest])
  qed
qed

lemma map_of_replace:
  "label \<in> fst ` set cs \<Longrightarrow>
   map_of (map (\<lambda>(name, col). if name = label then (name, new) else (name, col)) cs) label = Some new"
  by (induction cs) auto

lemma setitem_column: "map_of (columns (setitem d label v)) label = Some (replicate (nrows d) v)"
proof (cases "label \<in> fst ` set (columns d)")
  case True
  then show ?thesis
    by (simp add: setitem_def map_of_replace)
next
  case False
  then have "map_of (columns d) label = None"
    by (simp add: map_of_eq_None_iff)
  with False show ?thesis
    by (simp add: setitem_def map_add_def)
qed

lemma setitem_nrows: "nrows (setitem d label v) = nrows d"
  by (simp add: setitem_def)

lemma concat_frames_column:
  assumes "d \<in> set dfs" and "label \<in> fst ` set (columns d)"
  shows "map_of (columns (concat_frames dfs)) label =
    Some (concat (map (\<lambda>d. case map_of (columns d) label of
                              Some col \<Rightarrow> col | None \<Rightarrow> replicate (nrows d) NA) dfs))"
proof -
  have "label \<in> set (rev (remdups (rev (concat (map (\<lambda>d. map fst (columns d)) dfs)))))"
    using assms by auto
  then show ?thesis
    by (simp add: concat_frames_def map_of_map_restrict)
qed

lemma loaded_country_column:
  "concat (map (\<lambda>f. case map_of (columns f) ''Country'' of
                       Some col \<Rightarrow> col | None \<Rightarrow> replicate (nrows f) NA)
      (concat (map (\<lambda>(country, path).
         case fs path of Csv d \<Rightarrow> [setitem d ''Country'' (Str country)] | _ \<Rightarrow> []) ps))) =
   concat (map (\<lambda>(country, path).
      case fs path of Csv d \<Rightarrow> replicate (nrows d) (Str country) | _ \<Rightarrow> []) ps)"
proof (induction ps)
  case Nil
  show ?case by simp
next
  case (Cons a ps)
  obtain country path where a: "a = (country, path)" by (cases a)
  show ?case
    using Cons.IH by (cases "fs path") (simp_all add: a setitem_column setitem_nrows)
qed

lemma loaded_nrows:
  "sum_list (map nrows (concat (map (\<lambda>(country, path).
         case fs path of Csv d \<Rightarrow> [setitem d ''Country'' (Str country)] | _ \<Rightarrow> []) ps))) =
   sum_list (map (\<lambda>(country, path). case fs path of Csv d \<Rightarrow> nrows d | _ \<Rightarrow> 0) ps)"
proof (induction ps)
  case Nil
  show ?case by simp
next
  case (Cons a ps)
  obtain country path where a: "a = (country, path)" by (cases a)
  show ?case
    using Cons.IH by (cases "fs path") (simp_all add: a setitem_nrows)
qed

lemma loaded_has_country:
  assumes "f \<in> set (concat (map (\<lambda>(country, path).
         case fs path of Csv d \<Rightarrow> [setitem d ''Country'' (Str country)] | _ \<Rightarrow> []) ps))"
  shows "''Country'' \<in> fst ` set (columns f)"
proof -
  obtain d v where "f = setitem d ''Country'' v"
    using assms by (auto split: csv_file.splits)
  then have "map_of (columns f) ''Country'' \<noteq> None"
    by (simp add: setitem_column)
  then show ?thesis
    by (simp add: map_of_eq_None_iff)
qed

lemma loaded_empty_iff:
  assumes "list_all (\<lambda>(country, path). \<not> raises (fs path)) ps"
  shows "concat (map (\<lambda>(country, path).
         case fs path of Csv d \<Rightarrow> [setitem d ''Country'' (Str country)] | _ \<Rightarrow> []) ps) = [] \<longleftrightarrow>
         list_all (\<lambda>(country, path). fs path = NotFound) ps"
  using assms by (induction ps) (auto split: csv_file.splits)

lemma country_cell:
  "Str c \<in> set (case fs path of Csv d \<Rightarrow> replicate (nrows d) (Str country) | _ \<Rightarrow> []) \<longleftrightarrow>
   (\<exists>d. fs path = Csv d \<and> 0 < nrows d \<and> country = c)"
  by (cases "fs path") auto

lemma country_cells:
  "Str c \<in> set (concat (map (\<lambda>(country, path).
      case fs path of Csv d \<Rightarrow> replicate (nrows d) (Str country) | _ \<Rightarrow> []) ps)) \<longleftrightarrow>
   (\<exists>p d. (c, p) \<in> set ps \<and> fs p = Csv d \<and> 0 < nrows d)"
proof -
  have "Str c \<in> set (concat (map (\<lambda>(country, path).
      case fs path of Csv d \<Rightarrow> replicate (nrows d) (Str country) | _ \<Rightarrow> []) ps)) \<longleftrightarrow>
    (\<exists>x \<in> set ps. Str c \<in> set (case fs (snd x) of
        Csv d \<Rightarrow> replicate (nrows d) (Str (fst x)) | _ \<Rightarrow> []))"
    by (simp add: case_prod_beta)
  also have "\<dots> \<longleftrightarrow> (\<exists>x \<in> set ps. \<exists>d. fs (snd x) = Csv d \<and> 0 < nrows d \<and> fst x = c)"
    unfolding country_cell ..
  also have "\<dots> \<longleftrightarrow> (\<exists>p d. (c, p) \<in> set ps \<and> fs p = Csv d \<and> 0 < nrows d)"
    by force
  finally show ?thesis .
qed

text \<open>
  Claim C7. When each of the three files is either missing or readable, the loader prints
  one warning for each missing file, in order, and nothing else. If all files are missing
  it returns \<open>None\<close>. Otherwise it returns the combined frame: its rows are the rows of
  the files that were found, and its \<open>Country\<close> column holds the label of a file exactly
  when that file was found and has a row, so no missing file contributes to it.
\<close>

theorem load_data_missing_files:
  assumes "list_all (\<lambda>(country, path). \<not> raises (fs path)) (file_paths data_dir)"
  shows "fst (load_data data_dir fs) =
           concat (map (\<lambda>(country, path). case fs path of NotFound \<Rightarrow> [warning path] | _ \<Rightarrow> [])
             (file_paths data_dir)) \<and>
         (list_all (\<lambda>(country, path). fs path = NotFound) (file_paths data_dir) \<longrightarrow>
            snd (load_data data_dir fs) = None) \<and>
         (list_ex (\<lambda>(country, path). fs path \<noteq> NotFound) (file_paths data_dir) \<longrightarrow>
            (\<exists>df_all col. snd (load_data data_dir fs) = Some df_all \<and>
               nrows df_all = sum_list (map (\<lambda>(country, path).
                  case fs path of Csv d \<Rightarrow> nrows d | _ \<Rightarrow> 0) (file_paths data_dir)) \<and>
               getitem df_all ''Country'' = Inr col \<and>
               (\<forall>(country, path) \<in> set (file_paths data_dir).
                  Str country \<in> set col \<longleftrightarrow> (\<exists>d. fs path = Csv d \<and> 0 < nrows d))))"
proof -
  let ?loaded = "concat (map (\<lambda>(country, path).
      case fs path of Csv d \<Rightarrow> [setitem d ''Country'' (Str country)] | _ \<Rightarrow> []) (file_paths data_dir))"
  let ?out = "concat (map (\<lambda>(country, path).
      case fs path of NotFound \<Rightarrow> [warning path] | _ \<Rightarrow> []) (file_paths data_dir))"
  let ?col = "concat (map (\<lambda>(country, path).
      case fs path of Csv d \<Rightarrow> replicate (nrows d) (Str country) | _ \<Rightarrow> []) (file_paths data_dir))"
  have loop: "load_loop fs (file_paths data_dir) [] [] = (?out, Inr ?loaded)"
    using load_loop_readable[OF assms, of "[]" "[]"] by simp
  have res: "load_data data_dir fs = (?out, if ?loaded = [] then None else Some (concat_frames ?loaded))"
    by (simp add: load_data_def loop)
  have none: "list_all (\<lambda>(country, path). fs path = NotFound) (file_paths data_dir) \<longrightarrow>
      snd (load_data data_dir fs) = None"
    using loaded_empty_iff[OF assms] res by simp
  have some: "\<exists>df_all col. snd (load_data data_dir fs) = Some df_all \<and>
               nrows df_all = sum_list (map (\<lambda>(country, path).
                  case fs path of Csv d \<Rightarrow> nrows d | _ \<Rightarrow> 0) (file_paths data_dir)) \<and>
               getitem df_all ''Country'' = Inr col \<and>
               (\<forall>(country, path) \<in> set (file_paths data_dir).
                  Str country \<in> set col \<longleftrightarrow> (\<exists>d. fs path = Csv d \<and> 0 < nrows d))"
    if ex: "list_ex (\<lambda>(country, path). fs path \<noteq> NotFound) (file_paths data_dir)"
  proof -
    have "\<not> list_all (\<lambda>(country, path). fs path = NotFound) (file_paths data_dir)"
      using ex by (auto simp: list_all_iff list_ex_iff)
    then have ne: "?loaded \<noteq> []"
      using loaded_empty_iff[OF assms] by simp
    then obtain f where f: "f \<in> set ?loaded"
      by (cases ?loaded) auto
    have snd: "snd (load_data data_dir fs) = Some (concat_frames ?loaded)"
      using res ne by simp
    have n: "nrows (concat_frames ?loaded) = sum_list (map (\<lambda>(country, path).
                  case fs path of Csv d \<Rightarrow> nrows d | _ \<Rightarrow> 0) (file_paths data_dir))"
      using loaded_nrows[of fs "file_paths data_dir"] by (simp add: concat_frames_def)
    have "map_of (columns (concat_frames ?loaded)) ''Country'' = Some ?col"
      unfolding concat_frames_column[OF f loaded_has_country[OF f]] loaded_country_column ..
    then have g: "getitem (concat_frames ?loaded) ''Country'' = Inr ?col"
      by (simp add: getitem_def)
    have dist: "distinct (map fst (file_paths data_dir))"
      by (simp add: file_paths_def)
    have mem: "Str country \<in> set ?col \<longleftrightarrow> (\<exists>d. fs path = Csv d \<and> 0 < nrows d)"
      if cp: "(country, path) \<in> set (file_paths data_dir)" for country path
    proof -
      have "p = path" if "(country, p) \<in> set (file_paths data_dir)" for p
        using eq_key_imp_eq_value[OF dist that cp] .
      then have "(\<exists>p d. (country, p) \<in> set (file_paths data_dir) \<and> fs p = Csv d \<and> 0 < nrows d) \<longleftrightarrow>
          (\<exists>d. fs path = Csv d \<and> 0 < nrows d)"
        using cp by blast
      then show ?thesis
        unfolding country_cells .
    qed
    then have "\<forall>(country, path) \<in> set (file_paths data_dir).
        Str country \<in> set ?col \<longleftrightarrow> (\<exists>d. fs path = Csv d \<and> 0 < nrows d)"
      by blast
    then show ?thesis
      using snd n g by blast
  qed
  have "fst (load_data data_dir fs) = ?out"
    using res by simp
  then show ?thesis
    using none some by blast
qed

theorem load_data_missing_files_witness:
  "list_all (\<lambda>(country, path). \<not> raises (only_benin path)) (file_paths ''data'') \<and>
   list_ex (\<lambda>(country, path). only_benin path \<noteq> NotFound) (file_paths ''data'') \<and>
   fst (load_data ''data'' only_benin) =
     [warning ''data/sierraleone_clean.csv'', warning ''data/togo_clean.csv''] \<and>
   (\<exists>df_all col. snd (load_data ''data'' only_benin) = Some df_all \<and> nrows df_all = 2 \<and>
      getitem df_all ''Country'' = Inr col \<and>
      Str ''Benin'' \<in> set col \<and> Str ''Sierra Leone'' \<notin> set col \<and> Str ''Togo'' \<notin> set col) \<and>
   list_all (\<lambda>(country, path). \<not> raises ((\<lambda>_. NotFound) path)) (file_paths ''data'') \<and>
   list_all (\<lambda>(country, path). (\<lambda>_. NotFound) path = NotFound) (file_paths ''data'') \<and>
   load_data ''data'' (\<lambda>_. NotFound) =
     ([warning ''data/benin_clean.csv'', warning ''data/sierraleone_clean.csv'',
       warning ''data/togo_clean.csv''], None)"
proof -
  have r: "list_all (\<lambda>(country, path). \<not> raises (only_benin path)) (file_paths ''data'')"
    and e: "list_ex (\<lambda>(country, path). only_benin path \<noteq> NotFound) (file_paths ''data'')"
    by (simp_all add: file_paths_def only_benin_def)
  note t = load_data_missing_files[OF r]
  have "fst (load_data ''data'' only_benin) = concat (map (\<lambda>(country, path).
      case only_benin path of NotFound \<Rightarrow> [warning path] | _ \<Rightarrow> []) (file_paths ''data''))"
    using t by blast
  also have "\<dots> = [warning ''data/sierraleone_clean.csv'', warning ''data/togo_clean.csv'']"
    by (simp add: file_paths_def only_benin_def)
  finally have out: "fst (load_data ''data'' only_benin) =
      [warning ''data/sierraleone_clean.csv'', warning ''data/togo_clean.csv'']" .
  obtain df_all col where s: "snd (load_data ''data'' only_benin) = Some df_all"
    and n: "nrows df_all = sum_list (map (\<lambda>(country, path).
          case only_benin path of Csv d \<Rightarrow> nrows d | _ \<Rightarrow> 0) (file_paths ''data''))"
    and g: "getitem df_all ''Country'' = Inr col"
    and c: "\<forall>(country, path) \<in> set (file_paths ''data'').
          Str country \<in> set col \<longleftrightarrow> (\<exists>d. only_benin path = Csv d \<and> 0 < nrows d)"
    using t e by blast
  have n2: "nrows df_all = 2"
    using n by (simp add: file_paths_def only_benin_def)
  have "Str country \<in> set col \<longleftrightarrow> (\<exists>d. only_benin path = Csv d \<and> 0 < nrows d)"
    if "(country, path) \<in> set (file_paths ''data'')" for country path
    using c that by blast
  from this[of "''Benin''" "''data/benin_clean.csv''"]
    this[of "''Sierra Leone''" "''data/sierraleone_clean.csv''"]
    this[of "''Togo''" "''data/togo_clean.csv''"]
  have cells: "Str ''Benin'' \<in> set col \<and> Str ''Sierra Leone'' \<notin> set col \<and> Str ''Togo'' \<notin> set col"
    by (simp add: file_paths_def only_benin_def)
  have r0: "list_all (\<lambda>(country, path). \<not> raises ((\<lambda>_. NotFound) path)) (file_paths ''data'')"
    and a0: "list_all (\<lambda>(country, path). (\<lambda>_. NotFound) path = NotFound) (file_paths ''data'')"
    by (simp_all add: file_paths_def)
  note t0 = load_data_missing_files[OF r0]
  have "fst (load_data ''data'' (\<lambda>_. NotFound)) = concat (map (\<lambda>(country, path).
      case (\<lambda>_. NotFound) path of NotFound \<Rightarrow> [warning path] | _ \<Rightarrow> []) (file_paths ''data''))"
    using t0 by blast
  also have "\<dots> = [warning ''data/benin_clean.csv'', warning ''data/sierraleone_clean.csv'',
       warning ''data/togo_clean.csv'']"
    by (simp add: file_paths_def)
  finally have "fst (load_data ''data'' (\<lambda>_. NotFound)) =
      [warning ''data/benin_clean.csv'', warning ''data/sierraleone_clean.csv'',
       warning ''data/togo_clean.csv'']" .
  moreover have "snd (load_data ''data'' (\<lambda>_. NotFound)) = None"
    using t0 a0 by blast
  ultimately have all_missing: "load_data ''data'' (\<lambda>_. NotFound) =
     ([warning ''data/benin_clean.csv'', warning ''data/sierraleone_clean.csv'',
       warning ''data/togo_clean.csv''], None)"
    by (simp add: prod_eq_iff)
  show ?thesis
    using r e out s n2 g cells r0 a0 all_missing by blast
qed

end
